theory Spec2Isabelle
  imports Main
begin

section \<open>Data model\<close>

text \<open>
  A JavaScript \<open>Date\<close> object holds a time value: an integer number of milliseconds
  since the epoch, or NaN (an invalid date). A column of type \<open>Date | null\<close> is a
  \<open>jsdate option\<close>, with \<open>None\<close> for \<open>null\<close>.
  Numbers are doubles. The columns \<open>id\<close>, \<open>leadTime\<close> and \<open>available\<close> are integer
  columns, and the model takes their values as mathematical integers. Arithmetic on
  doubles is exact where the result is an integer of magnitude at most \<open>2^53\<close>, which
  every time value of a valid date is; where the code computes a number beyond that, the
  rounding is written out (\<open>double_minus_one\<close> below).
\<close>

datatype jsdate = Date int | InvalidDate

text \<open>
  Modelled from the spec: the row type \<open>Product\<close> of table \<open>products\<close>, declared in
  \<open>db/schema\<close>, which is not among the sources. Its fields are those of section 3 of
  the specification, which are also the fields of every product the tests build. The
  type tag is a string, so that a tag outside the three known ones can be written.
  Field \<open>id\<close> is named \<open>id_field\<close> here.
\<close>

record Product =
  id_field :: int
  leadTime :: int
  available :: int
  type :: string
  name :: string
  expiryDate :: "jsdate option"
  seasonStartDate :: "jsdate option"
  seasonEndDate :: "jsdate option"

text \<open>
  Modelled from the spec: the three operations of \<open>INotificationService\<close>, declared in
  \<open>notifications.port\<close>, which is not among the sources; section 6 of the
  specification lists them with the arguments the strategies pass. A
  \<open>notificationAction\<close> is a closure that makes exactly one such call when invoked; it
  is modelled by the call it makes.
\<close>

datatype notification =
    sendDelayNotification int string
  | sendOutOfStockNotification string
  | sendExpirationNotification string "jsdate option"

text \<open>
  \<open>ProductProcessingResult\<close>. Every strategy builds \<open>updatedProduct\<close> by spreading
  the whole input product, so an \<open>updatedProduct\<close> that is present has all the fields.
\<close>

record ProductProcessingResult =
  shouldUpdateStock :: bool
  updatedProduct :: "Product option"
  notificationAction :: "notification option"

section \<open>Dates and their comparison\<close>

text \<open>
  \<open>a > b\<close> and \<open>a < b\<close> on dates convert both operands to numbers: a date gives its
  time value, \<open>null\<close> gives 0, an invalid date gives NaN (\<open>None\<close> below), and a
  comparison with NaN is false.
\<close>

fun toNumber :: "jsdate option \<Rightarrow> int option" where
  "toNumber None = Some 0"
| "toNumber (Some (Date t)) = Some t"
| "toNumber (Some InvalidDate) = None"

definition js_lt :: "jsdate option \<Rightarrow> jsdate option \<Rightarrow> bool" where
  "js_lt a b = (case (toNumber a, toNumber b) of (Some x, Some y) \<Rightarrow> x < y | _ \<Rightarrow> False)"

definition js_gt :: "jsdate option \<Rightarrow> jsdate option \<Rightarrow> bool" where
  "js_gt a b = js_lt b a"

text \<open>\<open>new Date(t)\<close> clips: a time value beyond 8.64e15 ms in magnitude is invalid.\<close>

definition new_Date :: "int \<Rightarrow> jsdate" where
  "new_Date t = (if \<bar>t\<bar> \<le> 8640000000000000 then Date t else InvalidDate)"

definition millisecondsPerDay :: int where
  "millisecondsPerDay = 1000 * 60 * 60 * 24"

section \<open>Subtraction on doubles\<close>

text \<open>
  \<open>x - 1\<close> as the code computes it, for an integer \<open>x\<close> that a double holds; the
  strategies compute it for \<open>x > 0\<close> only. Up to \<open>2^53\<close> the difference is exact.
  Above \<open>2^53\<close> neighbouring doubles are 2 or more apart, so \<open>x - 1\<close> is not a double
  and the result is the nearest double, a tie going to the even significand. From
  \<open>2^53\<close> to \<open>2^54\<close> doubles are the even integers: \<open>x - 1\<close> lies midway between
  \<open>x - 2\<close> and \<open>x\<close>, and the one whose half is even is taken. From \<open>2^54\<close> on the
  nearest double is \<open>x\<close> itself.
\<close>

definition double_minus_one :: "int \<Rightarrow> int" where
  "double_minus_one x =
     (if x \<le> 2 ^ 53 then x - 1
      else if x < 2 ^ 54 \<and> odd (x div 2) then x - 2
      else x)"

section \<open>The strategies\<close>

text \<open>
  \<open>now\<close> is the time value of \<open>new Date()\<close>, the clock reading taken at the start of
  the seasonal and the expirable strategy.
\<close>

definition NormalProductStrategy_processOrder :: "Product \<Rightarrow> ProductProcessingResult" where
  "NormalProductStrategy_processOrder product =
     (if available product > 0 then
        \<lparr>shouldUpdateStock = True,
         updatedProduct = Some (product\<lparr>available := double_minus_one (available product)\<rparr>),
         notificationAction = None\<rparr>
      else if leadTime product > 0 then
        \<lparr>shouldUpdateStock = True,
         updatedProduct = Some (product\<lparr>leadTime := leadTime product\<rparr>),
         notificationAction = Some (sendDelayNotification (leadTime product) (name product))\<rparr>
      else
        \<lparr>shouldUpdateStock = False, updatedProduct = None, notificationAction = None\<rparr>)"

definition restockDate :: "int \<Rightarrow> Product \<Rightarrow> jsdate" where
  "restockDate now product = new_Date (now + leadTime product * millisecondsPerDay)"

definition SeasonalProductStrategy_processOrder :: "int \<Rightarrow> Product \<Rightarrow> ProductProcessingResult" where
  "SeasonalProductStrategy_processOrder now product =
     (let currentDate = Some (Date now) in
      if js_gt currentDate (seasonStartDate product)
         \<and> js_lt currentDate (seasonEndDate product)
         \<and> available product > 0 then
        \<lparr>shouldUpdateStock = True,
         updatedProduct = Some (product\<lparr>available := double_minus_one (available product)\<rparr>),
         notificationAction = None\<rparr>
      else if available product = 0 then
        (if js_gt (Some (restockDate now product)) (seasonEndDate product) then
           \<lparr>shouldUpdateStock = True,
            updatedProduct = Some (product\<lparr>available := 0\<rparr>),
            notificationAction = Some (sendOutOfStockNotification (name product))\<rparr>
         else
           \<lparr>shouldUpdateStock = True,
            updatedProduct = Some (product\<lparr>leadTime := leadTime product\<rparr>),
            notificationAction = Some (sendDelayNotification (leadTime product) (name product))\<rparr>)
      else if js_gt (seasonStartDate product) currentDate then
        \<lparr>shouldUpdateStock = False,
         updatedProduct = None,
         notificationAction = Some (sendOutOfStockNotification (name product))\<rparr>
      else
        \<lparr>shouldUpdateStock = False, updatedProduct = None, notificationAction = None\<rparr>)"

definition ExpirableProductStrategy_processOrder :: "int \<Rightarrow> Product \<Rightarrow> ProductProcessingResult" where
  "ExpirableProductStrategy_processOrder now product =
     (let currentDate = Some (Date now) in
      if available product > 0 \<and> js_gt (expiryDate product) currentDate then
        \<lparr>shouldUpdateStock = True,
         updatedProduct = Some (product\<lparr>available := double_minus_one (available product)\<rparr>),
         notificationAction = None\<rparr>
      else
        \<lparr>shouldUpdateStock = True,
         updatedProduct = Some (product\<lparr>available := 0\<rparr>),
         notificationAction =
           Some (sendExpirationNotification (name product) (expiryDate product))\<rparr>)"

section \<open>The strategy factory\<close>

datatype error = Error string

datatype IProductStrategy =
    NormalProductStrategy
  | SeasonalProductStrategy
  | ExpirableProductStrategy

definition createStrategy :: "string \<Rightarrow> error + IProductStrategy" where
  "createStrategy productType =
     (if productType = ''NORMAL'' then Inr NormalProductStrategy
      else if productType = ''SEASONAL'' then Inr SeasonalProductStrategy
      else if productType = ''EXPIRABLE'' then Inr ExpirableProductStrategy
      else Inl (Error (''Unknown product type: '' @ productType)))"

text \<open>\<open>strategy.processOrder(product)\<close>: dynamic dispatch on the strategy object.\<close>

fun strategy_processOrder :: "IProductStrategy \<Rightarrow> int \<Rightarrow> Product \<Rightarrow> ProductProcessingResult" where
  "strategy_processOrder NormalProductStrategy now product =
     NormalProductStrategy_processOrder product"
| "strategy_processOrder SeasonalProductStrategy now product =
     SeasonalProductStrategy_processOrder now product"
| "strategy_processOrder ExpirableProductStrategy now product =
     ExpirableProductStrategy_processOrder now product"

section \<open>The order processing service: model\<close>

text \<open>
  The service acts on two collaborators, the database and the notification service,
  both taken to complete their calls without an error of their own.
  The state records the rows of table \<open>products\<close>, the calls made so far in the order
  they were made, and how many strategy calls have been made (the strategy call number
  \<open>k\<close> reads the clock as \<open>clock k\<close>). Each awaited call is one step: the code
  continues only when the call has completed.
\<close>

datatype event =
    StrategyCalled Product
  | DatabaseUpdate int Product
  | NotificationCalled notification

record world =
  rows :: "Product list"
  events :: "event list"
  calls :: nat

text \<open>
  \<open>database.update(products).set(u).where(eq(products.id, i))\<close> writes the fields of
  \<open>u\<close> into every row whose id is \<open>i\<close>.
\<close>

definition database_update :: "int \<Rightarrow> Product \<Rightarrow> world \<Rightarrow> world" where
  "database_update i u w =
     w\<lparr>rows := map (\<lambda>r. if id_field r = i then u else r) (rows w),
       events := events w @ [DatabaseUpdate i u]\<rparr>"

definition invoke :: "notification \<Rightarrow> world \<Rightarrow> world" where
  "invoke n w = w\<lparr>events := events w @ [NotificationCalled n]\<rparr>"

definition run_strategy ::
  "(nat \<Rightarrow> int) \<Rightarrow> IProductStrategy \<Rightarrow> Product \<Rightarrow> world \<Rightarrow> ProductProcessingResult \<times> world" where
  "run_strategy clock strategy product w =
     (strategy_processOrder strategy (clock (calls w)) product,
      w\<lparr>events := events w @ [StrategyCalled product], calls := Suc (calls w)\<rparr>)"

text \<open>
  A thrown error leaves the effects already made in place: the result is the error, if
  any, together with the state reached.
\<close>

definition processProductOrder ::
  "(nat \<Rightarrow> int) \<Rightarrow> Product \<Rightarrow> world \<Rightarrow> error option \<times> world" where
  "processProductOrder clock product w =
     (case createStrategy (type product) of
        Inl e \<Rightarrow> (Some e, w)
      | Inr strategy \<Rightarrow>
          (let (result, w1) = run_strategy clock strategy product w;
               w2 = (if shouldUpdateStock result then
                       (case updatedProduct result of
                          Some u \<Rightarrow> database_update (id_field product) u w1
                        | None \<Rightarrow> w1)
                     else w1);
               w3 = (case notificationAction result of
                       Some n \<Rightarrow> invoke n w2
                     | None \<Rightarrow> w2)
           in (None, w3)))"

fun processOrder ::
  "(nat \<Rightarrow> int) \<Rightarrow> Product list \<Rightarrow> world \<Rightarrow> error option \<times> world" where
  "processOrder clock [] w = (None, w)"
| "processOrder clock (product # orderProducts) w =
     (case processProductOrder clock product w of
        (Some e, w1) \<Rightarrow> (Some e, w1)
      | (None, w1) \<Rightarrow> processOrder clock orderProducts w1)"

section \<open>Products of the test suites\<close>

text \<open>
  The products the tests build, with the clock reading \<open>1700000000000\<close> for their
  \<open>new Date()\<close>; the season and expiry dates are that reading plus or minus whole days.
\<close>

abbreviation usb_cable :: "int \<Rightarrow> int \<Rightarrow> Product" where
  "usb_cable stock lead \<equiv>
     \<lparr>id_field = 1, leadTime = lead, available = stock, type = ''NORMAL'',
      name = ''USB Cable'', expiryDate = None, seasonStartDate = None, seasonEndDate = None\<rparr>"

abbreviation test_now :: int where
  "test_now \<equiv> 1700000000000"

abbreviation seasonal_product :: "string \<Rightarrow> int \<Rightarrow> int \<Rightarrow> int \<Rightarrow> int \<Rightarrow> Product" where
  "seasonal_product nm stock lead start end \<equiv>
     \<lparr>id_field = 1, leadTime = lead, available = stock, type = ''SEASONAL'',
      name = nm, expiryDate = None,
      seasonStartDate = Some (Date start), seasonEndDate = Some (Date end)\<rparr>"

abbreviation milk :: "int \<Rightarrow> int \<Rightarrow> Product" where
  "milk stock expiry \<equiv>
     \<lparr>id_field = 1, leadTime = 15, available = stock, type = ''EXPIRABLE'',
      name = ''Milk'', expiryDate = Some (Date expiry),
      seasonStartDate = None, seasonEndDate = None\<rparr>"

section \<open>Reference definitions of the specification\<close>



section \<open>The decrement\<close>


text \<open>Beyond \<open>2^53\<close> the code's difference is a rounded double, not \<open>x - 1\<close>.\<close>

lemma double_minus_one_rounded:
  "double_minus_one (2 ^ 53 + 2) = 2 ^ 53 \<and> double_minus_one (2 ^ 54) = 2 ^ 54"
  by (simp add: double_minus_one_def)

lemma double_minus_one_bounds: "0 < x \<Longrightarrow> 0 \<le> double_minus_one x \<and> double_minus_one x \<le> x"
  by (simp add: double_minus_one_def)

section \<open>Comparison of valid dates\<close>

lemma js_lt_Date [simp]: "js_lt (Some (Date a)) (Some (Date b)) = (a < b)"
  by (simp add: js_lt_def)

lemma js_gt_Date [simp]: "js_gt (Some (Date a)) (Some (Date b)) = (b < a)"
  by (simp add: js_gt_def)

lemma js_gt_restockDate:
  "\<bar>now + leadTime p * millisecondsPerDay\<bar> \<le> 8640000000000000 \<Longrightarrow>
   js_gt (Some (restockDate now p)) (Some (Date e)) = (e < now + leadTime p * millisecondsPerDay)"
  by (simp add: restockDate_def new_Date_def)

section \<open>The normal strategy\<close>



section \<open>The seasonal strategy\<close>

text \<open>
  C1, as the specification states it, fails: a seasonal product before its season with
  no stock left takes the out-of-stock branch of the code first, which requests a stock
  update and, here, notifies a delay.
\<close>

theorem seasonal_before_season_counterexample:
  "js_lt (Some (Date test_now)) (seasonStartDate
      (seasonal_product ''Grapes'' 0 15 1702592000000 1707776000000))
   \<and> \<not> (shouldUpdateStock (SeasonalProductStrategy_processOrder test_now
            (seasonal_product ''Grapes'' 0 15 1702592000000 1707776000000)) = False
        \<and> notificationAction (SeasonalProductStrategy_processOrder test_now
            (seasonal_product ''Grapes'' 0 15 1702592000000 1707776000000))
           = Some (sendOutOfStockNotification ''Grapes''))
   \<and> SeasonalProductStrategy_processOrder test_now
        (seasonal_product ''Grapes'' 0 15 1702592000000 1707776000000)
      = \<lparr>shouldUpdateStock = True,
         updatedProduct = Some (seasonal_product ''Grapes'' 0 15 1702592000000 1707776000000),
         notificationAction = Some (sendDelayNotification 15 ''Grapes'')\<rparr>"
  by (simp add: SeasonalProductStrategy_processOrder_def restockDate_def new_Date_def
      millisecondsPerDay_def)

text \<open>
  C1, amended. For every seasonal product with \<open>now\<close> strictly before its season
  start and a stock that is not 0, the strategy requests no stock update and attaches
  an out-of-stock notification with the product's name.
\<close>

theorem seasonal_before_season_with_stock:
  assumes "seasonStartDate p = Some (Date start)" and "now < start" and "available p \<noteq> 0"
  shows "SeasonalProductStrategy_processOrder now p
         = \<lparr>shouldUpdateStock = False, updatedProduct = None,
            notificationAction = Some (sendOutOfStockNotification (name p))\<rparr>"
  using assms by (simp add: SeasonalProductStrategy_processOrder_def)

theorem seasonal_before_season_with_stock_witness:
  "seasonStartDate (seasonal_product ''Grapes'' 5 15 1702592000000 1707776000000)
     = Some (Date 1702592000000)
   \<and> test_now < 1702592000000
   \<and> available (seasonal_product ''Grapes'' 5 15 1702592000000 1707776000000) \<noteq> 0
   \<and> SeasonalProductStrategy_processOrder test_now
        (seasonal_product ''Grapes'' 5 15 1702592000000 1707776000000)
      = \<lparr>shouldUpdateStock = False, updatedProduct = None,
         notificationAction = Some (sendOutOfStockNotification ''Grapes'')\<rparr>"
  using seasonal_before_season_with_stock
    [of "seasonal_product ''Grapes'' 5 15 1702592000000 1707776000000" 1702592000000 test_now]
  by simp

text \<open>
  C4. For every seasonal product with no stock left (which therefore does not take the
  in-season in-stock path): if the restock date is after the season end, the strategy
  requests a stock update that leaves \<open>available = 0\<close> and attaches an out-of-stock
  notification with the name; otherwise it requests a stock update carrying the
  unchanged lead time and attaches a delay notification with that lead time and the
  name. The restock date is \<open>now\<close> plus \<open>leadTime\<close> days whenever that instant is
  one a date can hold.
\<close>

theorem seasonal_out_of_stock:
  assumes "available p = 0"
  shows "(js_gt (Some (restockDate now p)) (seasonEndDate p) \<longrightarrow>
            SeasonalProductStrategy_processOrder now p
            = \<lparr>shouldUpdateStock = True, updatedProduct = Some (p\<lparr>available := 0\<rparr>),
               notificationAction = Some (sendOutOfStockNotification (name p))\<rparr>)
         \<and> (\<not> js_gt (Some (restockDate now p)) (seasonEndDate p) \<longrightarrow>
            SeasonalProductStrategy_processOrder now p
            = \<lparr>shouldUpdateStock = True, updatedProduct = Some p,
               notificationAction = Some (sendDelayNotification (leadTime p) (name p))\<rparr>)
         \<and> (\<forall>e. seasonEndDate p = Some (Date e)
                 \<and> \<bar>now + leadTime p * millisecondsPerDay\<bar> \<le> 8640000000000000 \<longrightarrow>
               js_gt (Some (restockDate now p)) (seasonEndDate p)
               = (e < now + leadTime p * millisecondsPerDay))"
proof (intro conjI impI allI)
  assume "js_gt (Some (restockDate now p)) (seasonEndDate p)"
  with assms show "SeasonalProductStrategy_processOrder now p
      = \<lparr>shouldUpdateStock = True, updatedProduct = Some (p\<lparr>available := 0\<rparr>),
         notificationAction = Some (sendOutOfStockNotification (name p))\<rparr>"
    by (simp add: SeasonalProductStrategy_processOrder_def)
next
  assume "\<not> js_gt (Some (restockDate now p)) (seasonEndDate p)"
  with assms show "SeasonalProductStrategy_processOrder now p
      = \<lparr>shouldUpdateStock = True, updatedProduct = Some p,
         notificationAction = Some (sendDelayNotification (leadTime p) (name p))\<rparr>"
    by (simp add: SeasonalProductStrategy_processOrder_def)
next
  fix e
  assume "seasonEndDate p = Some (Date e)
          \<and> \<bar>now + leadTime p * millisecondsPerDay\<bar> \<le> 8640000000000000"
  then show "js_gt (Some (restockDate now p)) (seasonEndDate p)
             = (e < now + leadTime p * millisecondsPerDay)"
    using js_gt_restockDate [of now p e] by simp
qed

theorem seasonal_out_of_stock_witness:
  "available (seasonal_product ''Watermelon'' 0 30 1699136000000 1701728000000) = 0
   \<and> js_gt (Some (restockDate test_now
              (seasonal_product ''Watermelon'' 0 30 1699136000000 1701728000000)))
        (seasonEndDate (seasonal_product ''Watermelon'' 0 30 1699136000000 1701728000000))
   \<and> SeasonalProductStrategy_processOrder test_now
        (seasonal_product ''Watermelon'' 0 30 1699136000000 1701728000000)
      = \<lparr>shouldUpdateStock = True,
         updatedProduct = Some (seasonal_product ''Watermelon'' 0 30 1699136000000 1701728000000),
         notificationAction = Some (sendOutOfStockNotification ''Watermelon'')\<rparr>
   \<and> \<not> js_gt (Some (restockDate test_now
              (seasonal_product ''Watermelon'' 0 15 1699136000000 1704320000000)))
        (seasonEndDate (seasonal_product ''Watermelon'' 0 15 1699136000000 1704320000000))
   \<and> SeasonalProductStrategy_processOrder test_now
        (seasonal_product ''Watermelon'' 0 15 1699136000000 1704320000000)
      = \<lparr>shouldUpdateStock = True,
         updatedProduct = Some (seasonal_product ''Watermelon'' 0 15 1699136000000 1704320000000),
         notificationAction = Some (sendDelayNotification 15 ''Watermelon'')\<rparr>"
  using seasonal_out_of_stock
    [of "seasonal_product ''Watermelon'' 0 30 1699136000000 1701728000000" test_now]
    seasonal_out_of_stock
    [of "seasonal_product ''Watermelon'' 0 15 1699136000000 1704320000000" test_now]
  by (simp add: restockDate_def new_Date_def millisecondsPerDay_def)



text \<open>
  C6, as the specification states it, fails: at the very instant the season starts a
  seasonal product with stock left is not sold; the strategy requests no stock update.
\<close>

theorem seasonal_at_season_start_counterexample:
  "0 < available (seasonal_product ''Watermelon'' 5 15 test_now 1704320000000)
   \<and> seasonStartDate (seasonal_product ''Watermelon'' 5 15 test_now 1704320000000)
      = Some (Date test_now)
   \<and> js_lt (Some (Date test_now))
        (seasonEndDate (seasonal_product ''Watermelon'' 5 15 test_now 1704320000000))
   \<and> SeasonalProductStrategy_processOrder test_now
        (seasonal_product ''Watermelon'' 5 15 test_now 1704320000000)
      \<noteq> \<lparr>shouldUpdateStock = True,
         updatedProduct = Some (seasonal_product ''Watermelon'' 4 15 test_now 1704320000000),
         notificationAction = None\<rparr>
   \<and> \<not> shouldUpdateStock (SeasonalProductStrategy_processOrder test_now
        (seasonal_product ''Watermelon'' 5 15 test_now 1704320000000))"
  by (simp add: SeasonalProductStrategy_processOrder_def)

text \<open>
  C6, amended. For every seasonal product with stock left and \<open>now\<close> exactly equal to
  \<open>seasonStartDate\<close>, the product is not sold: the season window is open at its
  start, and processing at the start instant requests no stock update and attaches no
  notification.
\<close>

theorem seasonal_at_season_start_not_sold:
  assumes "0 < available p" and "seasonStartDate p = Some (Date now)"
  shows "SeasonalProductStrategy_processOrder now p
         = \<lparr>shouldUpdateStock = False, updatedProduct = None, notificationAction = None\<rparr>"
  using assms by (simp add: SeasonalProductStrategy_processOrder_def)

theorem seasonal_at_season_start_not_sold_witness:
  "0 < available (seasonal_product ''Watermelon'' 5 15 test_now 1704320000000)
   \<and> seasonStartDate (seasonal_product ''Watermelon'' 5 15 test_now 1704320000000)
      = Some (Date test_now)
   \<and> SeasonalProductStrategy_processOrder test_now
        (seasonal_product ''Watermelon'' 5 15 test_now 1704320000000)
      = \<lparr>shouldUpdateStock = False, updatedProduct = None, notificationAction = None\<rparr>"
  using seasonal_at_season_start_not_sold
    [of "seasonal_product ''Watermelon'' 5 15 test_now 1704320000000" test_now]
  by simp

section \<open>The expirable strategy\<close>



section \<open>Stock never negative, never increased\<close>

text \<open>
  C9. For every product with \<open>available \<ge> 0\<close> processed by the normal, the seasonal
  or the expirable strategy, whenever the result requests a stock update, the
  \<open>available\<close> it carries is \<open>\<ge> 0\<close> and \<open>\<le>\<close> the input's.
\<close>

theorem strategies_keep_stock_in_bounds:
  assumes "0 \<le> available p"
    and "shouldUpdateStock (strategy_processOrder strategy now p)"
    and "updatedProduct (strategy_processOrder strategy now p) = Some u"
  shows "0 \<le> available u \<and> available u \<le> available p"
proof (cases strategy)
  case NormalProductStrategy
  with assms show ?thesis
    using double_minus_one_bounds [of "available p"]
    by (auto simp: NormalProductStrategy_processOrder_def split: if_splits)
next
  case SeasonalProductStrategy
  with assms show ?thesis
    using double_minus_one_bounds [of "available p"]
    by (auto simp: SeasonalProductStrategy_processOrder_def Let_def split: if_splits)
next
  case ExpirableProductStrategy
  with assms show ?thesis
    using double_minus_one_bounds [of "available p"]
    by (auto simp: ExpirableProductStrategy_processOrder_def Let_def split: if_splits)
qed

theorem strategies_keep_stock_in_bounds_witness:
  "0 \<le> available (milk 6 1699827200000)
   \<and> shouldUpdateStock (strategy_processOrder ExpirableProductStrategy test_now
        (milk 6 1699827200000))
   \<and> updatedProduct (strategy_processOrder ExpirableProductStrategy test_now
        (milk 6 1699827200000)) = Some (milk 0 1699827200000)
   \<and> 0 \<le> available (milk 0 1699827200000)
   \<and> available (milk 0 1699827200000) \<le> available (milk 6 1699827200000)"
  using strategies_keep_stock_in_bounds
    [of "milk 6 1699827200000" ExpirableProductStrategy test_now "milk 0 1699827200000"]
  by (simp add: ExpirableProductStrategy_processOrder_def)

section \<open>The order processing service\<close>

subsection \<open>Calls are only ever added, in sequence\<close>

lemma processProductOrder_events:
  "\<exists>new. events (snd (processProductOrder clock p w)) = events w @ new"
  by (auto simp: processProductOrder_def run_strategy_def database_update_def invoke_def Let_def
      split: sum.splits option.splits prod.splits)

lemma processOrder_events:
  "\<exists>new. events (snd (processOrder clock ps w)) = events w @ new"
proof (induction ps arbitrary: w)
  case Nil
  show ?case by simp
next
  case (Cons p ps)
  obtain out w1 where step: "processProductOrder clock p w = (out, w1)"
    by (cases "processProductOrder clock p w")
  from processProductOrder_events [of clock p w] step
  obtain a where a: "events w1 = events w @ a" by auto
  show ?case
  proof (cases out)
    case None
    from Cons.IH [of w1] obtain b where "events (snd (processOrder clock ps w1)) = events w1 @ b"
      by blast
    with a step None show ?thesis by simp
  next
    case (Some e)
    with a step show ?thesis by simp
  qed
qed

lemma processOrder_append:
  "processOrder clock (xs @ ys) w =
     (case processOrder clock xs w of
        (Some e, w0) \<Rightarrow> (Some e, w0)
      | (None, w0) \<Rightarrow> processOrder clock ys w0)"
  by (induction xs arbitrary: w) (auto split: prod.splits option.splits)

lemma strategy_keeps_id:
  "updatedProduct (strategy_processOrder s now p) = Some u \<Longrightarrow> id_field u = id_field p"
  by (cases s)
     (auto simp: NormalProductStrategy_processOrder_def SeasonalProductStrategy_processOrder_def
        ExpirableProductStrategy_processOrder_def Let_def split: if_splits)

lemma createStrategy_unknown:
  "productType \<notin> {''NORMAL'', ''SEASONAL'', ''EXPIRABLE''} \<Longrightarrow>
   createStrategy productType = Inl (Error (''Unknown product type: '' @ productType))"
  by (simp add: createStrategy_def)

lemma processProductOrder_unfold:
  "createStrategy (type p) = Inr s \<Longrightarrow>
   processProductOrder clock p w =
     (None,
      (case notificationAction (strategy_processOrder s (clock (calls w)) p) of
         Some n \<Rightarrow> invoke n | None \<Rightarrow> (\<lambda>x. x))
      ((if shouldUpdateStock (strategy_processOrder s (clock (calls w)) p) then
          (case updatedProduct (strategy_processOrder s (clock (calls w)) p) of
             Some u \<Rightarrow> database_update (id_field p) u | None \<Rightarrow> (\<lambda>x. x))
        else (\<lambda>x. x))
       (snd (run_strategy clock s p w))))"
  by (simp add: processProductOrder_def run_strategy_def Let_def split: option.splits)

lemma processProductOrder_starts_with_strategy:
  "createStrategy (type p) = Inr s \<Longrightarrow>
   \<exists>more. events (snd (processProductOrder clock p w)) = events w @ StrategyCalled p # more"
  by (simp add: processProductOrder_unfold run_strategy_def database_update_def invoke_def
      split: option.splits)

lemma processOrder_starts_with_strategy:
  assumes "createStrategy (type p) = Inr s"
  shows "\<exists>more. events (snd (processOrder clock (p # ps) w)) = events w @ StrategyCalled p # more"
proof -
  obtain w1 where step: "processProductOrder clock p w = (None, w1)"
    using assms by (simp add: processProductOrder_unfold)
  from processProductOrder_starts_with_strategy [OF assms, of clock w] step
  obtain a where a: "events w1 = events w @ StrategyCalled p # a" by auto
  from processOrder_events [of clock ps w1]
  obtain b where "events (snd (processOrder clock ps w1)) = events w1 @ b" by blast
  with a step show ?thesis by simp
qed

subsection \<open>Order of the effects\<close>

text \<open>
  C7. Products are processed one at a time in sequence order: processing
  \<open>before @ product # after\<close> is processing \<open>before\<close>, then \<open>product\<close>, then
  \<open>after\<close>, each from the state the previous one left. For a product whose result
  requests a stock update and carries a notification, the calls made for it are, in
  this order, the strategy, the database update, the notification; the notification is
  invoked on the state the update produced; and every call for the products after it,
  the strategy of the next product first, comes after those.
\<close>

theorem processOrder_update_before_notification:
  assumes before: "processOrder clock before w = (None, w0)"
    and strategy: "createStrategy (type product) = Inr strategy"
    and upd: "shouldUpdateStock (strategy_processOrder strategy (clock (calls w0)) product)"
    and u: "updatedProduct (strategy_processOrder strategy (clock (calls w0)) product) = Some u"
    and n: "notificationAction (strategy_processOrder strategy (clock (calls w0)) product) = Some n"
  shows "\<exists>w1 pre rest.
       processProductOrder clock product w0 = (None, w1)
     \<and> w1 = invoke n (database_update (id_field product) u
               (snd (run_strategy clock strategy product w0)))
     \<and> processOrder clock (before @ product # after) w = processOrder clock after w1
     \<and> events w0 = events w @ pre
     \<and> events w1 = events w0 @ [StrategyCalled product,
           DatabaseUpdate (id_field product) u, NotificationCalled n]
     \<and> events (snd (processOrder clock after w1)) = events w1 @ rest
     \<and> (\<forall>nxt more s. after = nxt # more \<and> createStrategy (type nxt) = Inr s \<longrightarrow>
           (\<exists>rest'. rest = StrategyCalled nxt # rest'))"
proof -
  define w1 where "w1 = invoke n (database_update (id_field product) u
               (snd (run_strategy clock strategy product w0)))"
  have step: "processProductOrder clock product w0 = (None, w1)"
    using strategy upd u n by (simp add: processProductOrder_unfold w1_def)
  have whole: "processOrder clock (before @ product # after) w = processOrder clock after w1"
    using before step by (simp add: processOrder_append)
  from processOrder_events [of clock before w] before
  obtain pre where pre: "events w0 = events w @ pre" by auto
  have ev1: "events w1 = events w0 @ [StrategyCalled product,
           DatabaseUpdate (id_field product) u, NotificationCalled n]"
    by (simp add: w1_def invoke_def database_update_def run_strategy_def)
  from processOrder_events [of clock after w1]
  obtain rest where rest: "events (snd (processOrder clock after w1)) = events w1 @ rest"
    by blast
  have nxt: "\<forall>nxt more s. after = nxt # more \<and> createStrategy (type nxt) = Inr s \<longrightarrow>
           (\<exists>rest'. rest = StrategyCalled nxt # rest')"
  proof (intro allI impI)
    fix nxt more s
    assume a: "after = nxt # more \<and> createStrategy (type nxt) = Inr s"
    then obtain m where "events (snd (processOrder clock after w1))
        = events w1 @ StrategyCalled nxt # m"
      using processOrder_starts_with_strategy [of nxt s clock more w1] by auto
    with rest have "rest = StrategyCalled nxt # m" by simp
    then show "\<exists>rest'. rest = StrategyCalled nxt # rest'" by blast
  qed
  from step whole pre ev1 rest nxt show ?thesis
    unfolding w1_def [symmetric] by blast
qed

theorem processOrder_update_before_notification_witness:
  "processOrder (\<lambda>k. test_now) []
      \<lparr>rows = [usb_cable 0 15, (milk 3 1700864000000)\<lparr>id_field := 2\<rparr>], events = [], calls = 0\<rparr>
     = (None, \<lparr>rows = [usb_cable 0 15, (milk 3 1700864000000)\<lparr>id_field := 2\<rparr>],
               events = [], calls = 0\<rparr>)
   \<and> createStrategy (type (usb_cable 0 15)) = Inr NormalProductStrategy
   \<and> shouldUpdateStock (strategy_processOrder NormalProductStrategy test_now (usb_cable 0 15))
   \<and> updatedProduct (strategy_processOrder NormalProductStrategy test_now (usb_cable 0 15))
      = Some (usb_cable 0 15)
   \<and> notificationAction (strategy_processOrder NormalProductStrategy test_now (usb_cable 0 15))
      = Some (sendDelayNotification 15 ''USB Cable'')
   \<and> processOrder (\<lambda>k. test_now) [usb_cable 0 15, (milk 3 1700864000000)\<lparr>id_field := 2\<rparr>]
        \<lparr>rows = [usb_cable 0 15, (milk 3 1700864000000)\<lparr>id_field := 2\<rparr>],
         events = [], calls = 0\<rparr>
      = (None,
         \<lparr>rows = [usb_cable 0 15, (milk 2 1700864000000)\<lparr>id_field := 2\<rparr>],
          events = [StrategyCalled (usb_cable 0 15),
                    DatabaseUpdate 1 (usb_cable 0 15),
                    NotificationCalled (sendDelayNotification 15 ''USB Cable''),
                    StrategyCalled ((milk 3 1700864000000)\<lparr>id_field := 2\<rparr>),
                    DatabaseUpdate 2 ((milk 2 1700864000000)\<lparr>id_field := 2\<rparr>)],
          calls = 2\<rparr>)"
  using processOrder_update_before_notification
    [where clock = "\<lambda>k. test_now" and before = "[]"
       and w = "\<lparr>rows = [usb_cable 0 15, (milk 3 1700864000000)\<lparr>id_field := 2\<rparr>],
                 events = [], calls = 0\<rparr>"
       and ?w0.0 = "\<lparr>rows = [usb_cable 0 15, (milk 3 1700864000000)\<lparr>id_field := 2\<rparr>],
                 events = [], calls = 0\<rparr>"
       and product = "usb_cable 0 15" and strategy = NormalProductStrategy
       and u = "usb_cable 0 15" and n = "sendDelayNotification 15 ''USB Cable''"
       and after = "[(milk 3 1700864000000)\<lparr>id_field := 2\<rparr>]"]
  by (simp add: processProductOrder_def createStrategy_def run_strategy_def
      database_update_def invoke_def NormalProductStrategy_processOrder_def
      ExpirableProductStrategy_processOrder_def double_minus_one_def)

subsection \<open>Unknown product types\<close>

text \<open>
  C8. For every type tag outside NORMAL, SEASONAL and EXPIRABLE the factory fails with
  the error \<open>Unknown product type\<close> and gives no strategy; inside \<open>processOrder\<close> the
  error comes out of \<open>processOrder\<close>, in the state the products before the failing one
  left: nothing is called for the failing product nor for the products after it.
\<close>

theorem unknown_type_halts_processOrder:
  assumes "type product \<notin> {''NORMAL'', ''SEASONAL'', ''EXPIRABLE''}"
    and "processOrder clock before w = (None, w0)"
  shows "createStrategy (type product)
           = Inl (Error (''Unknown product type: '' @ type product))
       \<and> processProductOrder clock product w0
           = (Some (Error (''Unknown product type: '' @ type product)), w0)
       \<and> processOrder clock (before @ product # after) w
           = (Some (Error (''Unknown product type: '' @ type product)), w0)"
proof -
  have c: "createStrategy (type product)
           = Inl (Error (''Unknown product type: '' @ type product))"
    using assms(1) by (rule createStrategy_unknown)
  then have s: "processProductOrder clock product w0
           = (Some (Error (''Unknown product type: '' @ type product)), w0)"
    by (simp add: processProductOrder_def)
  from s assms(2) have "processOrder clock (before @ product # after) w
           = (Some (Error (''Unknown product type: '' @ type product)), w0)"
    by (simp add: processOrder_append)
  with c s show ?thesis by simp
qed

theorem unknown_type_halts_processOrder_witness:
  "type ((usb_cable 5 15)\<lparr>id_field := 3, type := ''FLASHSALE''\<rparr>)
     \<notin> {''NORMAL'', ''SEASONAL'', ''EXPIRABLE''}
   \<and> processOrder (\<lambda>k. test_now) [usb_cable 5 15]
        \<lparr>rows = [usb_cable 5 15], events = [], calls = 0\<rparr>
      = (None, \<lparr>rows = [usb_cable 4 15],
          events = [StrategyCalled (usb_cable 5 15), DatabaseUpdate 1 (usb_cable 4 15)],
          calls = 1\<rparr>)
   \<and> processOrder (\<lambda>k. test_now)
        ([usb_cable 5 15] @ (usb_cable 5 15)\<lparr>id_field := 3, type := ''FLASHSALE''\<rparr>
           # [usb_cable 4 15])
        \<lparr>rows = [usb_cable 5 15], events = [], calls = 0\<rparr>
      = (Some (Error ''Unknown product type: FLASHSALE''),
         \<lparr>rows = [usb_cable 4 15],
          events = [StrategyCalled (usb_cable 5 15), DatabaseUpdate 1 (usb_cable 4 15)],
          calls = 1\<rparr>)"
  using unknown_type_halts_processOrder
    [where product = "(usb_cable 5 15)\<lparr>id_field := 3, type := ''FLASHSALE''\<rparr>"
       and clock = "\<lambda>k. test_now" and before = "[usb_cable 5 15]"
       and w = "\<lparr>rows = [usb_cable 5 15], events = [], calls = 0\<rparr>"
       and ?w0.0 = "\<lparr>rows = [usb_cable 4 15],
          events = [StrategyCalled (usb_cable 5 15), DatabaseUpdate 1 (usb_cable 4 15)],
          calls = 1\<rparr>"
       and after = "[usb_cable 4 15]"]
  by (simp add: processProductOrder_def createStrategy_def run_strategy_def
      database_update_def invoke_def NormalProductStrategy_processOrder_def
      double_minus_one_def)

subsection \<open>Frame of a single product\<close>

text \<open>
  C10. \<open>processProductOrder\<close> writes no row whose id differs from the input product's
  id: every such row is unchanged. Every database update it makes is filtered by the
  input's id and carries that id. When the strategy result has \<open>shouldUpdateStock\<close>
  false or no \<open>updatedProduct\<close>, or when no strategy is found, no row is written and no
  database update is made.
\<close>

theorem processProductOrder_frame:
  assumes "processProductOrder clock product w = (out, w')"
  shows "length (rows w') = length (rows w)
     \<and> (\<forall>i < length (rows w).
           id_field (rows w ! i) \<noteq> id_field product \<longrightarrow> rows w' ! i = rows w ! i)
     \<and> (\<exists>new. events w' = events w @ new
          \<and> (\<forall>i u. DatabaseUpdate i u \<in> set new \<longrightarrow>
                i = id_field product \<and> id_field u = id_field product)
          \<and> (\<forall>strategy. createStrategy (type product) = Inr strategy
                \<and> (\<not> shouldUpdateStock
                        (strategy_processOrder strategy (clock (calls w)) product)
                    \<or> updatedProduct
                        (strategy_processOrder strategy (clock (calls w)) product) = None)
                \<longrightarrow> rows w' = rows w \<and> (\<forall>i u. DatabaseUpdate i u \<notin> set new)))
     \<and> (\<forall>e. createStrategy (type product) = Inl e \<longrightarrow> w' = w)"
proof (cases "createStrategy (type product)")
  case (Inl e)
  with assms have "w' = w" by (simp add: processProductOrder_def)
  with Inl show ?thesis by simp
next
  case (Inr s)
  let ?r = "strategy_processOrder s (clock (calls w)) product"
  show ?thesis
  proof (cases "shouldUpdateStock ?r \<and> updatedProduct ?r \<noteq> None")
    case True
    then obtain u where u: "updatedProduct ?r = Some u" and upd: "shouldUpdateStock ?r" by auto
    from u have idu: "id_field u = id_field product" by (rule strategy_keeps_id)
    from assms Inr u upd idu show ?thesis
      by (auto simp: processProductOrder_unfold run_strategy_def database_update_def invoke_def
          split: option.splits)
  next
    case False
    with assms Inr show ?thesis
      by (auto simp: processProductOrder_unfold run_strategy_def database_update_def invoke_def
          split: option.splits)
  qed
qed

theorem processProductOrder_frame_witness:
  "processProductOrder (\<lambda>k. test_now) (usb_cable 5 15)
      \<lparr>rows = [usb_cable 5 15, (milk 3 1700864000000)\<lparr>id_field := 2\<rparr>],
       events = [], calls = 0\<rparr>
     = (None, \<lparr>rows = [usb_cable 4 15, (milk 3 1700864000000)\<lparr>id_field := 2\<rparr>],
          events = [StrategyCalled (usb_cable 5 15), DatabaseUpdate 1 (usb_cable 4 15)],
          calls = 1\<rparr>)
   \<and> (1::nat) < length [usb_cable 5 15, (milk 3 1700864000000)\<lparr>id_field := 2\<rparr>]
   \<and> id_field ([usb_cable 5 15, (milk 3 1700864000000)\<lparr>id_field := 2\<rparr>] ! 1)
       \<noteq> id_field (usb_cable 5 15)
   \<and> [usb_cable 4 15, (milk 3 1700864000000)\<lparr>id_field := 2\<rparr>] ! 1
       = [usb_cable 5 15, (milk 3 1700864000000)\<lparr>id_field := 2\<rparr>] ! 1
   \<and> createStrategy (type (usb_cable 0 0)) = Inr NormalProductStrategy
   \<and> \<not> shouldUpdateStock (strategy_processOrder NormalProductStrategy test_now (usb_cable 0 0))
   \<and> processProductOrder (\<lambda>k. test_now) (usb_cable 0 0)
        \<lparr>rows = [usb_cable 0 0], events = [], calls = 0\<rparr>
      = (None, \<lparr>rows = [usb_cable 0 0], events = [StrategyCalled (usb_cable 0 0)],
           calls = 1\<rparr>)"
  using processProductOrder_frame
    [where clock = "\<lambda>k. test_now" and product = "usb_cable 5 15"
       and w = "\<lparr>rows = [usb_cable 5 15, (milk 3 1700864000000)\<lparr>id_field := 2\<rparr>],
                 events = [], calls = 0\<rparr>"
       and out = None
       and w' = "\<lparr>rows = [usb_cable 4 15, (milk 3 1700864000000)\<lparr>id_field := 2\<rparr>],
          events = [StrategyCalled (usb_cable 5 15), DatabaseUpdate 1 (usb_cable 4 15)],
          calls = 1\<rparr>"]
    processProductOrder_frame
    [where clock = "\<lambda>k. test_now" and product = "usb_cable 0 0"
       and w = "\<lparr>rows = [usb_cable 0 0], events = [], calls = 0\<rparr>"
       and out = None
       and w' = "\<lparr>rows = [usb_cable 0 0], events = [StrategyCalled (usb_cable 0 0)],
           calls = 1\<rparr>"]
  by (simp add: processProductOrder_def createStrategy_def run_strategy_def
      database_update_def invoke_def NormalProductStrategy_processOrder_def
      double_minus_one_def)

end
